theory Spec2Isabelle
  imports Main
begin

section \<open>Order statuses (package models)\<close>

text \<open>
  \<^verbatim>\<open>type OrderStatus string\<close>: a status is a Go string, and the handlers that read a status
  from a request body accept any string. The seven constants are the declared stages.
\<close>

type_synonym OrderStatus = string

definition StatusPlaced :: OrderStatus where "StatusPlaced = ''PLACED''"
definition StatusConfirmed :: OrderStatus where "StatusConfirmed = ''CONFIRMED''"
definition StatusPreparing :: OrderStatus where "StatusPreparing = ''PREPARING''"
definition StatusReadyForPickup :: OrderStatus where "StatusReadyForPickup = ''READY_FOR_PICKUP''"
definition StatusPickedUp :: OrderStatus where "StatusPickedUp = ''PICKED_UP''"
definition StatusDelivered :: OrderStatus where "StatusDelivered = ''DELIVERED''"
definition StatusCancelled :: OrderStatus where "StatusCancelled = ''CANCELLED''"

lemmas status_defs =
  StatusPlaced_def StatusConfirmed_def StatusPreparing_def StatusReadyForPickup_def
  StatusPickedUp_def StatusDelivered_def StatusCancelled_def


section \<open>The state machine (statemachine/order\_state.go)\<close>

record Transition =
  From :: OrderStatus
  To :: OrderStatus
  Actor :: string

definition validTransitions :: "Transition list" where
  "validTransitions =
    [\<lparr>From = StatusPlaced, To = StatusConfirmed, Actor = ''restaurant''\<rparr>,
     \<lparr>From = StatusPlaced, To = StatusCancelled, Actor = ''restaurant''\<rparr>,
     \<lparr>From = StatusPlaced, To = StatusCancelled, Actor = ''customer''\<rparr>,
     \<lparr>From = StatusConfirmed, To = StatusPreparing, Actor = ''restaurant''\<rparr>,
     \<lparr>From = StatusConfirmed, To = StatusCancelled, Actor = ''restaurant''\<rparr>,
     \<lparr>From = StatusConfirmed, To = StatusCancelled, Actor = ''customer''\<rparr>,
     \<lparr>From = StatusPreparing, To = StatusReadyForPickup, Actor = ''restaurant''\<rparr>,
     \<lparr>From = StatusReadyForPickup, To = StatusPickedUp, Actor = ''driver''\<rparr>,
     \<lparr>From = StatusPickedUp, To = StatusDelivered, Actor = ''driver''\<rparr>]"

text \<open>
  \<^verbatim>\<open>transitionKey\<close> is a struct of the same three fields; a Go \<^verbatim>\<open>map[transitionKey]bool\<close>
  reads \<^verbatim>\<open>false\<close> at a key that was never stored, so the map is a function into \<open>bool\<close>
  that starts as constantly \<open>False\<close>. \<open>buildTransitionMap\<close> is the loop of the initialiser.
\<close>

type_synonym transitionKey = "OrderStatus \<times> OrderStatus \<times> string"

definition buildTransitionMap :: "Transition list \<Rightarrow> transitionKey \<Rightarrow> bool" where
  "buildTransitionMap ts =
     foldl (\<lambda>m t. m((From t, To t, Actor t) := True)) (\<lambda>_. False) ts"

definition transitionMap :: "transitionKey \<Rightarrow> bool" where
  "transitionMap = buildTransitionMap validTransitions"

text \<open>
  \<open>ValidTransitionsFrom\<close>: one pass over the table, appending each target not yet seen.
  \<open>collectNext\<close> is the body of the loop on the pair of \<^verbatim>\<open>nexts\<close> and \<^verbatim>\<open>seen\<close>.
\<close>

definition collectNext ::
  "OrderStatus \<Rightarrow> OrderStatus list \<times> (OrderStatus \<Rightarrow> bool) \<Rightarrow> Transition
     \<Rightarrow> OrderStatus list \<times> (OrderStatus \<Rightarrow> bool)" where
  "collectNext status acc t =
     (case acc of (nexts, seen) \<Rightarrow>
        if From t = status \<and> \<not> seen (To t)
        then (nexts @ [To t], seen(To t := True))
        else (nexts, seen))"

definition ValidTransitionsFrom :: "OrderStatus \<Rightarrow> OrderStatus list" where
  "ValidTransitionsFrom status =
     fst (foldl (collectNext status) ([], \<lambda>_. False) validTransitions)"

text \<open>
  \<open>describeValidFrom\<close>: the indexed loop that joins the names with a comma and a space.
\<close>

definition describeValidFrom :: "OrderStatus \<Rightarrow> string" where
  "describeValidFrom status =
     (let nexts = ValidTransitionsFrom status in
      if length nexts = 0 then ''none (terminal state)''
      else foldl (\<lambda>result (i, s). (if i > 0 then result @ '', '' else result) @ s)
                 [] (enumerate 0 nexts))"

text \<open>The arrow of the message is U+2192, three bytes in the UTF-8 of a Go string.\<close>

definition arrow :: string where
  "arrow = [CHR 0xE2, CHR 0x86, CHR 0x92]"

text \<open>
  \<open>CanTransition\<close> returns \<open>None\<close> for Go's \<^verbatim>\<open>nil\<close> and \<open>Some msg\<close> for the error built
  by \<^verbatim>\<open>errors.New\<close>.
\<close>

definition invalidTransitionMessage :: "OrderStatus \<Rightarrow> OrderStatus \<Rightarrow> string \<Rightarrow> string" where
  "invalidTransitionMessage from to actor =
     ''invalid transition: '' @ from @ '' '' @ arrow @ '' '' @ to @
     '' is not allowed for actor '' @ [CHR 0x27] @ actor @ [CHR 0x27] @ ''. '' @
     ''Valid transitions from '' @ from @ '' are: '' @ describeValidFrom from"

definition CanTransition :: "OrderStatus \<Rightarrow> OrderStatus \<Rightarrow> string \<Rightarrow> string option" where
  "CanTransition from to actor =
     (if transitionMap (from, to, actor) then None
      else Some (invalidTransitionMessage from to actor))"

section \<open>Stored data (package models)\<close>

text \<open>
  Identifiers are Go \<^verbatim>\<open>uint\<close> values that the program only compares and stores, so they
  are natural numbers. \<open>DriverID\<close> is a pointer in the source (\<^verbatim>\<open>*uint\<close>): \<open>None\<close> is
  \<^verbatim>\<open>nil\<close>. The fields that no handler of the order workflow branches on are left
  out: the \<^verbatim>\<open>float64\<close> prices, the time stamps and the preloaded associations.
\<close>

record OrderItem =
  OrderItem_MenuItemID :: nat
  Quantity :: int
  OrderItem_Name :: string

record Order =
  ID :: nat
  CustomerID :: nat
  RestaurantID :: nat
  DriverID :: "nat option"
  Status :: OrderStatus
  DeliveryAddress :: string
  Notes :: string
  EstimatedTime :: int
  Items :: "OrderItem list"

text \<open>
  \<open>OrderStatusHistory\<close>: \<open>FromStatus\<close> and \<open>ChangedBy\<close> are plain values in the source, so a
  record that was built without them holds Go's zero values, the empty string and \<open>0\<close>.
\<close>

record OrderStatusHistory =
  OrderID :: nat
  FromStatus :: OrderStatus
  ToStatus :: OrderStatus
  ChangedBy :: nat
  Note :: string

record Restaurant =
  Restaurant_ID :: nat
  OwnerID :: nat
  Restaurant_Name :: string
  IsOpen :: bool

record MenuItem =
  MenuItem_ID :: nat
  MenuItem_RestaurantID :: nat
  MenuItem_Name :: string
  IsAvailable :: bool

section \<open>The store behind \<^verbatim>\<open>config.DB\<close>\<close>

text \<open>
  The handlers reach the database through the global handle \<^verbatim>\<open>config.DB\<close>. Here the
  database is a value passed in and returned: one list of rows per table, the history
  table in insertion order. A GORM call whose error the source does not inspect takes
  effect as written.
\<close>

record DB =
  orders :: "Order list"
  restaurants :: "Restaurant list"
  menu_items :: "MenuItem list"
  history :: "OrderStatusHistory list"

text \<open>\<^verbatim>\<open>DB.First(&order, id)\<close>: the row with that primary key, or an error.\<close>

definition db_first_order :: "DB \<Rightarrow> nat \<Rightarrow> Order option" where
  "db_first_order db i = find (\<lambda>x. ID x = i) (orders db)"

definition db_first_restaurant :: "DB \<Rightarrow> nat \<Rightarrow> Restaurant option" where
  "db_first_restaurant db i = find (\<lambda>r. Restaurant_ID r = i) (restaurants db)"

definition db_first_menu_item :: "DB \<Rightarrow> nat \<Rightarrow> MenuItem option" where
  "db_first_menu_item db i = find (\<lambda>m. MenuItem_ID m = i) (menu_items db)"

text \<open>
  \<^verbatim>\<open>DB.Where("owner_id = ?", ownerID).First(&restaurant)\<close>: of the matching rows, the one
  with the least primary key.
\<close>

definition db_first_restaurant_by_owner :: "DB \<Rightarrow> nat \<Rightarrow> Restaurant option" where
  "db_first_restaurant_by_owner db owner =
     (case filter (\<lambda>r. OwnerID r = owner) (restaurants db) of
        [] \<Rightarrow> None
      | r # rs \<Rightarrow> Some (foldl (\<lambda>m x. if Restaurant_ID x < Restaurant_ID m then x else m) r rs))"

text \<open>
  \<^verbatim>\<open>DB.Model(&order).Update(...)\<close> and \<^verbatim>\<open>Updates(...)\<close>: an \<^verbatim>\<open>UPDATE\<close> of the named columns
  of the row whose primary key is \<^verbatim>\<open>order.ID\<close>. The other columns keep what the table
  holds, not what the handler read earlier.
\<close>

definition db_update_order :: "nat \<Rightarrow> (Order \<Rightarrow> Order) \<Rightarrow> DB \<Rightarrow> DB" where
  "db_update_order i f db = db\<lparr>orders := map (\<lambda>x. if ID x = i then f x else x) (orders db)\<rparr>"

text \<open>\<^verbatim>\<open>DB.Create(&history)\<close>: one more row at the end of the history table.\<close>

definition db_create_history :: "OrderStatusHistory \<Rightarrow> DB \<Rightarrow> DB" where
  "db_create_history h db = db\<lparr>history := history db @ [h]\<rparr>"

text \<open>
  \<^verbatim>\<open>DB.Create(&order)\<close>: the table assigns the primary key, one more than the greatest
  key in use, and the struct in the handler receives it.
\<close>

definition next_order_id :: "DB \<Rightarrow> nat" where
  "next_order_id db = Suc (foldl max 0 (map ID (orders db)))"

definition db_create_order :: "Order \<Rightarrow> DB \<Rightarrow> Order \<times> DB" where
  "db_create_order order db =
     (let order' = order\<lparr>ID := next_order_id db\<rparr>
      in (order', db\<lparr>orders := orders db @ [order']\<rparr>))"

section \<open>Requests and responses\<close>

text \<open>
  \<open>Context\<close> holds what the handlers take from \<^verbatim>\<open>*gin.Context\<close>: the caller's id that
  the authentication middleware stored (\<^verbatim>\<open>middleware.GetUserID\<close>) and the \<^verbatim>\<open>:id\<close> of the
  route. A request body is \<open>string + 'req\<close>: \<open>Inl msg\<close> when \<^verbatim>\<open>ShouldBindJSON\<close> returned the
  error \<open>msg\<close>, \<open>Inr req\<close> when it filled the struct.
\<close>

record Context =
  userID :: nat
  param_id :: nat

record UpdateOrderStatusRequest =
  req_Status :: OrderStatus
  req_Note :: string

record ForceOrderStatusRequest =
  force_Status :: OrderStatus
  Reason :: string

record PlaceOrderItem =
  item_MenuItemID :: nat
  item_Quantity :: int

record PlaceOrderRequest =
  req_RestaurantID :: nat
  req_DeliveryAddress :: string
  req_Notes :: string
  req_Items :: "PlaceOrderItem list"

text \<open>
  A response is the status code and the \<^verbatim>\<open>gin.H\<close> object passed to \<^verbatim>\<open>c.JSON\<close>, as a
  list of keys and values.
\<close>

datatype JSON =
  JString string
| JUint nat
| JInt int
| JStatuses "OrderStatus list"
| JOrder Order

record Response =
  status_code :: nat
  json :: "(string \<times> JSON) list"

definition respond :: "nat \<Rightarrow> (string \<times> JSON) list \<Rightarrow> Response" where
  "respond n h = \<lparr>status_code = n, json = h\<rparr>"


definition StatusOK :: nat where "StatusOK = 200"
definition StatusCreated :: nat where "StatusCreated = 201"
definition StatusBadRequest :: nat where "StatusBadRequest = 400"
definition StatusForbidden :: nat where "StatusForbidden = 403"
definition StatusNotFound :: nat where "StatusNotFound = 404"
definition StatusConflict :: nat where "StatusConflict = 409"
definition StatusUnprocessableEntity :: nat where "StatusUnprocessableEntity = 422"
definition StatusInternalServerError :: nat where "StatusInternalServerError = 500"

lemmas http_defs =
  StatusOK_def StatusCreated_def StatusBadRequest_def StatusForbidden_def StatusNotFound_def
  StatusConflict_def StatusUnprocessableEntity_def StatusInternalServerError_def

section \<open>Driver handlers (handlers/driver.go)\<close>

text \<open>
  \<open>PickupOrder\<close> reads the order into a local struct and then works on that copy. The part
  after the read is \<open>PickupOrder_claim\<close>: it takes the copy and the database as it is when
  the writes happen.
\<close>

definition PickupOrder_claim :: "Context \<Rightarrow> Order \<Rightarrow> DB \<Rightarrow> Response \<times> DB" where
  "PickupOrder_claim c order st =
     (let driverID = userID c in
      if DriverID order \<noteq> None then
        (respond StatusConflict
           [(''error'', JString ''Order has already been picked up by another driver'')], st)
      else
        case CanTransition (Status order) StatusPickedUp ''driver'' of
          Some err \<Rightarrow>
            (respond StatusUnprocessableEntity
               [(''error'', JString ''Invalid state transition''),
                (''current_status'', JString (Status order)),
                (''reason'', JString err),
                (''valid_next_states'', JStatuses (ValidTransitionsFrom (Status order)))], st)
        | None \<Rightarrow>
            (let prevStatus = Status order;
                 st1 = db_update_order (ID order)
                         (\<lambda>r. r\<lparr>Status := StatusPickedUp, DriverID := Some driverID\<rparr>) st;
                 st2 = db_create_history
                         \<lparr>OrderID = ID order, FromStatus = prevStatus,
                          ToStatus = StatusPickedUp, ChangedBy = driverID,
                          Note = ''Driver picked up the order''\<rparr> st1
             in (respond StatusOK
                   [(''message'', JString ''Order picked up successfully''),
                    (''order_id'', JUint (ID order)),
                    (''status'', JString StatusPickedUp)], st2)))"

definition PickupOrder :: "Context \<Rightarrow> DB \<Rightarrow> Response \<times> DB" where
  "PickupOrder c st =
     (case db_first_order st (param_id c) of
        None \<Rightarrow> (respond StatusNotFound [(''error'', JString ''Order not found'')], st)
      | Some order \<Rightarrow> PickupOrder_claim c order st)"

text \<open>
  Two pickup requests served at once: each handler runs in its own goroutine, and nothing
  in the source (no transaction, no lock, no condition on the \<^verbatim>\<open>UPDATE\<close>) keeps the second
  read from happening before the first write. \<open>PickupOrder_interleaved\<close> is that
  schedule: both reads, then the rest of the first handler, then the rest of the second.
\<close>

definition PickupOrder_interleaved ::
  "Context \<Rightarrow> Context \<Rightarrow> DB \<Rightarrow> Response \<times> Response \<times> DB" where
  "PickupOrder_interleaved cA cB st =
     (let readA = db_first_order st (param_id cA);
          readB = db_first_order st (param_id cB);
          (respA, st1) = (case readA of
                            None \<Rightarrow> (respond StatusNotFound
                                        [(''error'', JString ''Order not found'')], st)
                          | Some orderA \<Rightarrow> PickupOrder_claim cA orderA st);
          (respB, st2) = (case readB of
                            None \<Rightarrow> (respond StatusNotFound
                                        [(''error'', JString ''Order not found'')], st1)
                          | Some orderB \<Rightarrow> PickupOrder_claim cB orderB st1)
      in (respA, respB, st2))"

text \<open>The same two requests one after the other.\<close>

definition PickupOrder_sequential ::
  "Context \<Rightarrow> Context \<Rightarrow> DB \<Rightarrow> Response \<times> Response \<times> DB" where
  "PickupOrder_sequential cA cB st =
     (let (respA, st1) = PickupOrder cA st;
          (respB, st2) = PickupOrder cB st1
      in (respA, respB, st2))"

text \<open>The success message of \<open>DeliverOrder\<close> ends in U+1F389, four bytes in UTF-8.\<close>

definition party_popper :: string where
  "party_popper = [CHR 0xF0, CHR 0x9F, CHR 0x8E, CHR 0x89]"

definition DeliverOrder :: "Context \<Rightarrow> DB \<Rightarrow> Response \<times> DB" where
  "DeliverOrder c st =
     (let driverID = userID c in
      case db_first_order st (param_id c) of
        None \<Rightarrow> (respond StatusNotFound [(''error'', JString ''Order not found'')], st)
      | Some order \<Rightarrow>
          if DriverID order = None \<or> DriverID order \<noteq> Some driverID then
            (respond StatusForbidden
               [(''error'', JString ''You are not the assigned driver for this order'')], st)
          else
            (case CanTransition (Status order) StatusDelivered ''driver'' of
              Some err \<Rightarrow>
                (respond StatusUnprocessableEntity
                   [(''error'', JString ''Invalid state transition''),
                    (''current_status'', JString (Status order)),
                    (''reason'', JString err)], st)
            | None \<Rightarrow>
                (let prevStatus = Status order;
                     st1 = db_update_order (ID order) (\<lambda>r. r\<lparr>Status := StatusDelivered\<rparr>) st;
                     st2 = db_create_history
                             \<lparr>OrderID = ID order, FromStatus = prevStatus,
                              ToStatus = StatusDelivered, ChangedBy = driverID,
                              Note = ''Order delivered to customer''\<rparr> st1
                 in (respond StatusOK
                       [(''message'', JString (''Order delivered successfully! '' @ party_popper)),
                        (''order_id'', JUint (ID order)),
                        (''status'', JString StatusDelivered)], st2))))"

section \<open>Customer handlers (handlers/customer.go)\<close>

definition CancelOrder :: "Context \<Rightarrow> DB \<Rightarrow> Response \<times> DB" where
  "CancelOrder c st =
     (let customerID = userID c in
      case db_first_order st (param_id c) of
        None \<Rightarrow> (respond StatusNotFound [(''error'', JString ''Order not found'')], st)
      | Some order \<Rightarrow>
          if CustomerID order \<noteq> customerID then
            (respond StatusForbidden
               [(''error'', JString ''This order does not belong to you'')], st)
          else
            (case CanTransition (Status order) StatusCancelled ''customer'' of
              Some err \<Rightarrow>
                (respond StatusUnprocessableEntity
                   [(''error'', JString ''Cannot cancel order''),
                    (''reason'', JString err),
                    (''current_state'', JString (Status order))], st)
            | None \<Rightarrow>
                (let prevStatus = Status order;
                     st1 = db_update_order (ID order) (\<lambda>r. r\<lparr>Status := StatusCancelled\<rparr>) st;
                     st2 = db_create_history
                             \<lparr>OrderID = ID order, FromStatus = prevStatus,
                              ToStatus = StatusCancelled, ChangedBy = customerID,
                              Note = ''Order cancelled by customer''\<rparr> st1
                 in (respond StatusOK
                       [(''message'', JString ''Order cancelled successfully''),
                        (''order_id'', JUint (ID order))], st2))))"

text \<open>
  \<^verbatim>\<open>string(rune(n))\<close> for a \<^verbatim>\<open>uint\<close>: the conversion to \<^verbatim>\<open>rune\<close> keeps the low 32 bits as a
  signed number, and the conversion to a string is the UTF-8 encoding of that code point,
  or of U+FFFD when it is not a valid one.
\<close>

definition string_of_rune :: "nat \<Rightarrow> string" where
  "string_of_rune n =
     (let r = n mod 2 ^ 32 in
      if r \<ge> 2 ^ 31 \<or> r > 0x10FFFF \<or> (0xD800 \<le> r \<and> r \<le> 0xDFFF)
        then [CHR 0xEF, CHR 0xBF, CHR 0xBD]
      else if r < 0x80 then [char_of r]
      else if r < 0x800 then [char_of (0xC0 + r div 64), char_of (0x80 + r mod 64)]
      else if r < 0x10000 then
        [char_of (0xE0 + r div 4096), char_of (0x80 + (r div 64) mod 64),
         char_of (0x80 + r mod 64)]
      else
        [char_of (0xF0 + r div 262144), char_of (0x80 + (r div 4096) mod 64),
         char_of (0x80 + (r div 64) mod 64), char_of (0x80 + r mod 64)])"

text \<open>
  The loop of \<open>PlaceOrder\<close> over the requested items: it stops with a response at the first
  item that is unknown, of another restaurant or unavailable, and otherwise extends the
  list of order items.
\<close>

fun buildOrderItems ::
  "DB \<Rightarrow> nat \<Rightarrow> PlaceOrderItem list \<Rightarrow> OrderItem list \<Rightarrow> Response + OrderItem list" where
  "buildOrderItems st rid [] orderItems = Inr orderItems"
| "buildOrderItems st rid (reqItem # rest) orderItems =
     (case db_first_menu_item st (item_MenuItemID reqItem) of
        None \<Rightarrow>
          Inl (respond StatusBadRequest
                 [(''error'', JString (''Menu item not found: '' @
                                        string_of_rune (item_MenuItemID reqItem)))])
      | Some menuItem \<Rightarrow>
          if MenuItem_RestaurantID menuItem \<noteq> rid then
            Inl (respond StatusBadRequest
                   [(''error'', JString ''Menu item does not belong to this restaurant'')])
          else if \<not> IsAvailable menuItem then
            Inl (respond StatusBadRequest
                   [(''error'', JString (''Menu item '' @ [CHR 0x27] @ MenuItem_Name menuItem @
                                          [CHR 0x27] @ '' is not available''))])
          else
            buildOrderItems st rid rest
              (orderItems @ [\<lparr>OrderItem_MenuItemID = MenuItem_ID menuItem,
                              Quantity = item_Quantity reqItem,
                              OrderItem_Name = MenuItem_Name menuItem\<rparr>]))"

text \<open>
  \<open>PlaceOrder\<close>. \<^verbatim>\<open>DB.Create(&order)\<close> is the one write whose error the source inspects;
  whether the storage layer accepted it is the input \<open>created\<close>. The response carries the
  order as read back after the history record was written.
\<close>

definition PlaceOrder ::
  "Context \<Rightarrow> string + PlaceOrderRequest \<Rightarrow> bool \<Rightarrow> DB \<Rightarrow> Response \<times> DB" where
  "PlaceOrder c body created st =
     (let customerID = userID c in
      case body of
        Inl err \<Rightarrow> (respond StatusBadRequest [(''error'', JString err)], st)
      | Inr req \<Rightarrow>
          (case db_first_restaurant st (req_RestaurantID req) of
             None \<Rightarrow> (respond StatusNotFound [(''error'', JString ''Restaurant not found'')], st)
           | Some restaurant \<Rightarrow>
               if \<not> IsOpen restaurant then
                 (respond StatusBadRequest
                    [(''error'', JString ''Restaurant is currently closed'')], st)
               else
                 (case buildOrderItems st (req_RestaurantID req) (req_Items req) [] of
                    Inl resp \<Rightarrow> (resp, st)
                  | Inr orderItems \<Rightarrow>
                      (let estimatedTime = 30 + 5 * int (length (req_Items req));
                           order = \<lparr>ID = 0, CustomerID = customerID,
                                    RestaurantID = req_RestaurantID req, DriverID = None,
                                    Status = StatusPlaced,
                                    DeliveryAddress = req_DeliveryAddress req,
                                    Notes = req_Notes req, EstimatedTime = estimatedTime,
                                    Items = orderItems\<rparr>
                       in if \<not> created then
                            (respond StatusInternalServerError
                               [(''error'', JString ''Failed to place order'')], st)
                          else
                            (let (order1, st1) = db_create_order order st;
                                 st2 = db_create_history
                                         \<lparr>OrderID = ID order1, FromStatus = [],
                                          ToStatus = StatusPlaced, ChangedBy = customerID,
                                          Note = ''Order placed by customer''\<rparr> st1;
                                 order2 = (case db_first_order st2 (ID order1) of
                                             None \<Rightarrow> order1 | Some row \<Rightarrow> row)
                             in (respond StatusCreated
                                   [(''message'', JString ''Order placed successfully''),
                                    (''order'', JOrder order2),
                                    (''estimated_time'', JInt estimatedTime)], st2))))))"

section \<open>Restaurant handlers (handlers/restaurant\_order.go)\<close>

definition UpdateOrderStatus ::
  "Context \<Rightarrow> string + UpdateOrderStatusRequest \<Rightarrow> DB \<Rightarrow> Response \<times> DB" where
  "UpdateOrderStatus c body st =
     (let ownerID = userID c in
      case db_first_restaurant_by_owner st ownerID of
        None \<Rightarrow>
          (respond StatusNotFound
             [(''error'', JString ''No restaurant found for your account'')], st)
      | Some restaurant \<Rightarrow>
          (case db_first_order st (param_id c) of
             None \<Rightarrow> (respond StatusNotFound [(''error'', JString ''Order not found'')], st)
           | Some order \<Rightarrow>
               if RestaurantID order \<noteq> Restaurant_ID restaurant then
                 (respond StatusForbidden
                    [(''error'', JString ''This order does not belong to your restaurant'')], st)
               else
                 (case body of
                    Inl err \<Rightarrow> (respond StatusBadRequest [(''error'', JString err)], st)
                  | Inr req \<Rightarrow>
                      (case CanTransition (Status order) (req_Status req) ''restaurant'' of
                         Some err \<Rightarrow>
                           (respond StatusUnprocessableEntity
                              [(''error'', JString ''Invalid state transition''),
                               (''current_status'', JString (Status order)),
                               (''requested'', JString (req_Status req)),
                               (''reason'', JString err),
                               (''valid_next_states'',
                                  JStatuses (ValidTransitionsFrom (Status order)))], st)
                       | None \<Rightarrow>
                           (let prevStatus = Status order;
                                st1 = db_update_order (ID order)
                                        (\<lambda>r. r\<lparr>Status := req_Status req\<rparr>) st;
                                st2 = (if req_Status req = StatusPreparing
                                       then db_update_order (ID order)
                                              (\<lambda>r. r\<lparr>EstimatedTime := 20\<rparr>) st1
                                       else st1);
                                st3 = db_create_history
                                        \<lparr>OrderID = ID order, FromStatus = prevStatus,
                                         ToStatus = req_Status req, ChangedBy = ownerID,
                                         Note = req_Note req\<rparr> st2
                            in (respond StatusOK
                                  [(''message'', JString ''Order status updated''),
                                   (''order_id'', JUint (ID order)),
                                   (''previous_status'', JString prevStatus),
                                   (''current_status'', JString (req_Status req))], st3))))))"

section \<open>The admin override (package handlers, AdminForceOrderStatus)\<close>

text \<open>
  \<open>AdminForceOrderStatus\<close> binds the body first, then reads the order. It neither calls
  \<^verbatim>\<open>middleware.GetUserID\<close> nor sets \<^verbatim>\<open>ChangedBy\<close>, so the history record holds the zero
  value there.
\<close>

definition AdminForceOrderStatus ::
  "Context \<Rightarrow> string + ForceOrderStatusRequest \<Rightarrow> DB \<Rightarrow> Response \<times> DB" where
  "AdminForceOrderStatus c body st =
     (case body of
        Inl err \<Rightarrow> (respond StatusBadRequest [(''error'', JString err)], st)
      | Inr req \<Rightarrow>
          (case db_first_order st (param_id c) of
             None \<Rightarrow> (respond StatusNotFound [(''error'', JString ''Order not found'')], st)
           | Some order \<Rightarrow>
               (let prevStatus = Status order;
                    st1 = db_update_order (ID order) (\<lambda>r. r\<lparr>Status := force_Status req\<rparr>) st;
                    st2 = db_create_history
                            \<lparr>OrderID = ID order, FromStatus = prevStatus,
                             ToStatus = force_Status req, ChangedBy = 0,
                             Note = ''[ADMIN OVERRIDE] '' @ Reason req\<rparr> st1
                in (respond StatusOK
                      [(''message'', JString ''Order status force-updated by admin''),
                       (''order_id'', JUint (ID order)),
                       (''previous_status'', JString prevStatus),
                       (''new_status'', JString (force_Status req))], st2))))"

section \<open>The audit trail of an order\<close>

text \<open>
  The records of one order are the rows of the history table with its \<open>OrderID\<close>, in
  insertion order (what \<^verbatim>\<open>Preload("StatusHistory")\<close> loads); \<open>most_recent\<close> is the last
  of them. \<open>stage_recorded st st' oid\<close> says that \<open>st'\<close> has exactly one history row more
  than \<open>st\<close>, that this row is the most recent record of order \<open>oid\<close>, and that the order
  stored under \<open>oid\<close> is in the status the row names as \<open>ToStatus\<close>.
\<close>

definition most_recent :: "DB \<Rightarrow> nat \<Rightarrow> OrderStatusHistory option" where
  "most_recent db oid =
     (case rev (filter (\<lambda>h. OrderID h = oid) (history db)) of
        [] \<Rightarrow> None
      | h # _ \<Rightarrow> Some h)"


section \<open>What a denial carries\<close>


section \<open>A sample run\<close>

text \<open>
  One restaurant (owner 20) with one dish, customer 10, drivers 30 and 31, admin 99. The
  states below are what the handlers themselves produce from the empty order table: the
  order is placed, confirmed, prepared, made ready, picked up by driver 30 and delivered.
\<close>

definition db0 :: DB where
  "db0 = \<lparr>orders = [],
          restaurants = [\<lparr>Restaurant_ID = 5, OwnerID = 20, Restaurant_Name = ''Udupi'',
                          IsOpen = True\<rparr>],
          menu_items = [\<lparr>MenuItem_ID = 3, MenuItem_RestaurantID = 5,
                         MenuItem_Name = ''Dosa'', IsAvailable = True\<rparr>],
          history = []\<rparr>"

definition customer10 :: Context where "customer10 = \<lparr>userID = 10, param_id = 1\<rparr>"
definition owner20 :: Context where "owner20 = \<lparr>userID = 20, param_id = 1\<rparr>"
definition driver30 :: Context where "driver30 = \<lparr>userID = 30, param_id = 1\<rparr>"
definition driver31 :: Context where "driver31 = \<lparr>userID = 31, param_id = 1\<rparr>"
definition admin99 :: Context where "admin99 = \<lparr>userID = 99, param_id = 1\<rparr>"

definition place_req :: PlaceOrderRequest where
  "place_req = \<lparr>req_RestaurantID = 5, req_DeliveryAddress = ''12 Main St'', req_Notes = [],
                req_Items = [\<lparr>item_MenuItemID = 3, item_Quantity = 2\<rparr>]\<rparr>"

definition st_placed :: DB where
  "st_placed = snd (PlaceOrder customer10 (Inr place_req) True db0)"

definition st_confirmed :: DB where
  "st_confirmed = snd (UpdateOrderStatus owner20
                         (Inr \<lparr>req_Status = StatusConfirmed, req_Note = ''Order received!''\<rparr>)
                         st_placed)"

definition st_preparing :: DB where
  "st_preparing = snd (UpdateOrderStatus owner20
                         (Inr \<lparr>req_Status = StatusPreparing, req_Note = []\<rparr>) st_confirmed)"

definition st_ready :: DB where
  "st_ready = snd (UpdateOrderStatus owner20
                     (Inr \<lparr>req_Status = StatusReadyForPickup, req_Note = ''Food is packed!''\<rparr>)
                     st_preparing)"

definition st_picked :: DB where
  "st_picked = snd (PickupOrder driver30 st_ready)"

definition st_delivered :: DB where
  "st_delivered = snd (DeliverOrder driver30 st_picked)"

text \<open>The stored order of the sample run, at a given status and assignment.\<close>

definition sample_order :: "OrderStatus \<Rightarrow> nat option \<Rightarrow> int \<Rightarrow> Order" where
  "sample_order s d eta =
     \<lparr>ID = 1, CustomerID = 10, RestaurantID = 5, DriverID = d, Status = s,
      DeliveryAddress = ''12 Main St'', Notes = [], EstimatedTime = eta,
      Items = [\<lparr>OrderItem_MenuItemID = 3, Quantity = 2, OrderItem_Name = ''Dosa''\<rparr>]\<rparr>"

section \<open>The transition table and the validator\<close>

lemma buildTransitionMap_foldl:
  "foldl (\<lambda>m t. m((From t, To t, Actor t) := True)) m0 ts k
     = (m0 k \<or> k \<in> (\<lambda>t. (From t, To t, Actor t)) ` set ts)"
  by (induction ts arbitrary: m0) auto

lemma transitionMap_iff:
  "transitionMap (f, t, a) \<longleftrightarrow> \<lparr>From = f, To = t, Actor = a\<rparr> \<in> set validTransitions"
proof -
  have "(f, t, a) \<in> (\<lambda>x. (From x, To x, Actor x)) ` set validTransitions
          \<longleftrightarrow> \<lparr>From = f, To = t, Actor = a\<rparr> \<in> set validTransitions"
  proof
    assume "(f, t, a) \<in> (\<lambda>x. (From x, To x, Actor x)) ` set validTransitions"
    then obtain x where x: "x \<in> set validTransitions" "From x = f" "To x = t" "Actor x = a"
      by auto
    then have "x = \<lparr>From = f, To = t, Actor = a\<rparr>" by simp
    with x show "\<lparr>From = f, To = t, Actor = a\<rparr> \<in> set validTransitions" by simp
  next
    assume "\<lparr>From = f, To = t, Actor = a\<rparr> \<in> set validTransitions"
    then show "(f, t, a) \<in> (\<lambda>x. (From x, To x, Actor x)) ` set validTransitions"
      by force
  qed
  then show ?thesis
    by (simp add: transitionMap_def buildTransitionMap_def buildTransitionMap_foldl)
qed

lemma ValidTransitionsFrom_foldl_set:
  "(\<And>x. seen x \<longleftrightarrow> x \<in> set nexts) \<Longrightarrow>
   set (fst (foldl (collectNext status) (nexts, seen) ts))
     = set nexts \<union> To ` {t \<in> set ts. From t = status}"
proof (induction ts arbitrary: nexts seen)
  case Nil
  then show ?case by simp
next
  case (Cons t ts)
  show ?case
  proof (cases "From t = status \<and> \<not> seen (To t)")
    case True
    have inv: "\<And>x. (seen(To t := True)) x \<longleftrightarrow> x \<in> set (nexts @ [To t])"
      using Cons.prems by auto
    have step: "collectNext status (nexts, seen) t = (nexts @ [To t], seen(To t := True))"
      using True by (simp add: collectNext_def)
    have "set (fst (foldl (collectNext status) (nexts, seen) (t # ts)))
            = set (nexts @ [To t]) \<union> To ` {t \<in> set ts. From t = status}"
      unfolding foldl_Cons step by (rule Cons.IH [OF inv])
    also have "\<dots> = set nexts \<union> To ` {x \<in> set (t # ts). From x = status}"
      using True by auto
    finally show ?thesis .
  next
    case False
    have step: "collectNext status (nexts, seen) t = (nexts, seen)"
      using False by (auto simp add: collectNext_def)
    have "set (fst (foldl (collectNext status) (nexts, seen) (t # ts)))
            = set nexts \<union> To ` {t \<in> set ts. From t = status}"
      unfolding foldl_Cons step by (rule Cons.IH [OF Cons.prems])
    also have "\<dots> = set nexts \<union> To ` {x \<in> set (t # ts). From x = status}"
      using False Cons.prems by auto
    finally show ?thesis .
  qed
qed

lemma ValidTransitionsFrom_set:
  "set (ValidTransitionsFrom s) = To ` {t \<in> set validTransitions. From t = s}"
  unfolding ValidTransitionsFrom_def
  by (subst ValidTransitionsFrom_foldl_set) simp_all

lemma ValidTransitionsFrom_empty_iff:
  "ValidTransitionsFrom s = [] \<longleftrightarrow> (\<forall>t \<in> set validTransitions. From t \<noteq> s)"
proof -
  have "ValidTransitionsFrom s = [] \<longleftrightarrow> set (ValidTransitionsFrom s) = {}" by simp
  also have "\<dots> \<longleftrightarrow> (\<forall>t \<in> set validTransitions. From t \<noteq> s)"
    unfolding ValidTransitionsFrom_set by blast
  finally show ?thesis .
qed


lemma CanTransition_terminal:
  assumes "ValidTransitionsFrom s = []"
  shows "CanTransition s to actor = Some (invalidTransitionMessage s to actor)"
proof -
  have "\<lparr>From = s, To = to, Actor = actor\<rparr> \<notin> set validTransitions"
    using assms unfolding ValidTransitionsFrom_empty_iff by force
  then show ?thesis by (simp add: CanTransition_def transitionMap_iff)
qed

text \<open>
  Claim C1. \<open>CanTransition\<close> returns \<^verbatim>\<open>nil\<close> exactly for the triples of the table, which
  has nine distinct entries; an actor that no entry lists for the pair \<open>(from, to)\<close> gets
  the invalid-transition error, whoever else may make that move.
\<close>

theorem CanTransition_iff_table:
  "(CanTransition from to actor = None
      \<longleftrightarrow> \<lparr>From = from, To = to, Actor = actor\<rparr> \<in> set validTransitions)
   \<and> length validTransitions = 9 \<and> distinct validTransitions
   \<and> ((\<forall>t \<in> set validTransitions. From t = from \<and> To t = to \<longrightarrow> Actor t \<noteq> actor)
        \<longrightarrow> CanTransition from to actor = Some (invalidTransitionMessage from to actor))"
proof -
  have a: "CanTransition from to actor = None
      \<longleftrightarrow> \<lparr>From = from, To = to, Actor = actor\<rparr> \<in> set validTransitions"
    by (simp add: CanTransition_def transitionMap_iff)
  have b: "length validTransitions = 9 \<and> distinct validTransitions"
    by (simp add: validTransitions_def status_defs)
  have c: "(\<forall>t \<in> set validTransitions. From t = from \<and> To t = to \<longrightarrow> Actor t \<noteq> actor)
        \<longrightarrow> CanTransition from to actor = Some (invalidTransitionMessage from to actor)"
  proof
    assume h: "\<forall>t \<in> set validTransitions. From t = from \<and> To t = to \<longrightarrow> Actor t \<noteq> actor"
    have "\<lparr>From = from, To = to, Actor = actor\<rparr> \<notin> set validTransitions"
      using h by force
    then show "CanTransition from to actor = Some (invalidTransitionMessage from to actor)"
      by (simp add: CanTransition_def transitionMap_iff)
  qed
  from a b c show ?thesis by blast
qed

theorem CanTransition_iff_table_witness:
  "\<not> (\<exists>t \<in> set validTransitions.
        From t = StatusPlaced \<and> To t = StatusConfirmed \<and> Actor t = ''customer'')
   \<and> CanTransition StatusPlaced StatusConfirmed ''customer''
       = Some (invalidTransitionMessage StatusPlaced StatusConfirmed ''customer'')
   \<and> CanTransition StatusPlaced StatusConfirmed ''restaurant'' = None"
proof -
  have h: "\<forall>t \<in> set validTransitions.
      From t = StatusPlaced \<and> To t = StatusConfirmed \<longrightarrow> Actor t \<noteq> ''customer''"
    by (simp add: validTransitions_def status_defs)
  have a: "CanTransition StatusPlaced StatusConfirmed ''customer''
       = Some (invalidTransitionMessage StatusPlaced StatusConfirmed ''customer'')"
    using CanTransition_iff_table [of StatusPlaced StatusConfirmed "''customer''"] h by blast
  have "\<lparr>From = StatusPlaced, To = StatusConfirmed, Actor = ''restaurant''\<rparr>
          \<in> set validTransitions"
    by (simp add: validTransitions_def)
  then have b: "CanTransition StatusPlaced StatusConfirmed ''restaurant'' = None"
    using CanTransition_iff_table [of StatusPlaced StatusConfirmed "''restaurant''"] by blast
  from h have "\<not> (\<exists>t \<in> set validTransitions.
        From t = StatusPlaced \<and> To t = StatusConfirmed \<and> Actor t = ''customer'')"
    by blast
  with a b show ?thesis by blast
qed



section \<open>Unfolding sets and the sample run\<close>

lemmas db_defs = db_first_order_def db_first_restaurant_def db_first_menu_item_def
  db_first_restaurant_by_owner_def db_update_order_def db_create_history_def
  db_create_order_def next_order_id_def
lemmas sample_defs = db0_def customer10_def owner20_def driver30_def driver31_def admin99_def
  place_req_def sample_order_def

lemma CanTransition_table:
  "CanTransition StatusPlaced StatusConfirmed ''restaurant'' = None"
  "CanTransition StatusConfirmed StatusPreparing ''restaurant'' = None"
  "CanTransition StatusPreparing StatusReadyForPickup ''restaurant'' = None"
  "CanTransition StatusReadyForPickup StatusPickedUp ''driver'' = None"
  "CanTransition StatusPickedUp StatusDelivered ''driver'' = None"
  "CanTransition StatusPlaced StatusCancelled ''customer'' = None"
  by (simp_all add: CanTransition_def transitionMap_iff validTransitions_def)

lemma st_placed_eq:
  "st_placed = db0\<lparr>orders := [sample_order StatusPlaced None 35],
                   history := [\<lparr>OrderID = 1, FromStatus = [], ToStatus = StatusPlaced,
                                ChangedBy = 10, Note = ''Order placed by customer''\<rparr>]\<rparr>"
  by (simp add: st_placed_def PlaceOrder_def db_defs sample_defs Let_def)

lemmas CanTransition_eval = CanTransition_table [unfolded status_defs]

lemma st_confirmed_eq:
  "st_confirmed = db0\<lparr>orders := [sample_order StatusConfirmed None 35],
     history := [\<lparr>OrderID = 1, FromStatus = [], ToStatus = StatusPlaced,
                  ChangedBy = 10, Note = ''Order placed by customer''\<rparr>,
                 \<lparr>OrderID = 1, FromStatus = StatusPlaced, ToStatus = StatusConfirmed,
                  ChangedBy = 20, Note = ''Order received!''\<rparr>]\<rparr>"
  unfolding st_confirmed_def st_placed_eq
  by (simp add: UpdateOrderStatus_def db_defs sample_defs Let_def CanTransition_eval status_defs)

lemma st_preparing_eq:
  "st_preparing = db0\<lparr>orders := [sample_order StatusPreparing None 20],
     history := [\<lparr>OrderID = 1, FromStatus = [], ToStatus = StatusPlaced,
                  ChangedBy = 10, Note = ''Order placed by customer''\<rparr>,
                 \<lparr>OrderID = 1, FromStatus = StatusPlaced, ToStatus = StatusConfirmed,
                  ChangedBy = 20, Note = ''Order received!''\<rparr>,
                 \<lparr>OrderID = 1, FromStatus = StatusConfirmed, ToStatus = StatusPreparing,
                  ChangedBy = 20, Note = []\<rparr>]\<rparr>"
  unfolding st_preparing_def st_confirmed_eq
  by (simp add: UpdateOrderStatus_def db_defs sample_defs Let_def CanTransition_eval status_defs)

lemma st_ready_eq:
  "st_ready = db0\<lparr>orders := [sample_order StatusReadyForPickup None 20],
     history := [\<lparr>OrderID = 1, FromStatus = [], ToStatus = StatusPlaced,
                  ChangedBy = 10, Note = ''Order placed by customer''\<rparr>,
                 \<lparr>OrderID = 1, FromStatus = StatusPlaced, ToStatus = StatusConfirmed,
                  ChangedBy = 20, Note = ''Order received!''\<rparr>,
                 \<lparr>OrderID = 1, FromStatus = StatusConfirmed, ToStatus = StatusPreparing,
                  ChangedBy = 20, Note = []\<rparr>,
                 \<lparr>OrderID = 1, FromStatus = StatusPreparing, ToStatus = StatusReadyForPickup,
                  ChangedBy = 20, Note = ''Food is packed!''\<rparr>]\<rparr>"
  unfolding st_ready_def st_preparing_eq
  by (simp add: UpdateOrderStatus_def db_defs sample_defs Let_def CanTransition_eval status_defs)

lemma st_picked_eq:
  "st_picked = st_ready\<lparr>orders := [sample_order StatusPickedUp (Some 30) 20],
     history := history st_ready @
                [\<lparr>OrderID = 1, FromStatus = StatusReadyForPickup, ToStatus = StatusPickedUp,
                  ChangedBy = 30, Note = ''Driver picked up the order''\<rparr>]\<rparr>"
  unfolding st_picked_def st_ready_eq
  by (simp add: PickupOrder_def PickupOrder_claim_def db_defs sample_defs Let_def
        CanTransition_eval status_defs)

lemma st_delivered_eq:
  "st_delivered = st_picked\<lparr>orders := [sample_order StatusDelivered (Some 30) 20],
     history := history st_picked @
                [\<lparr>OrderID = 1, FromStatus = StatusPickedUp, ToStatus = StatusDelivered,
                  ChangedBy = 30, Note = ''Order delivered to customer''\<rparr>]\<rparr>"
  unfolding st_delivered_def st_picked_eq st_ready_eq
  by (simp add: DeliverOrder_def db_defs sample_defs Let_def
        CanTransition_eval status_defs)

section \<open>The store\<close>

lemma db_first_order_ID: "db_first_order st i = Some x \<Longrightarrow> ID x = i"
  by (auto simp add: db_first_order_def find_Some_iff)

lemma find_update_by_ID:
  assumes "\<And>x. ID (f x) = ID x"
  shows "find (\<lambda>x. ID x = j) (map (\<lambda>x. if ID x = i then f x else x) xs)
           = (if j = i then map_option f (find (\<lambda>x. ID x = i) xs)
              else find (\<lambda>x. ID x = j) xs)"
  using assms by (induction xs) auto

lemma db_first_order_update:
  assumes "\<And>x. ID (f x) = ID x"
  shows "db_first_order (db_update_order i f st) j
           = (if j = i then map_option f (db_first_order st i) else db_first_order st j)"
  using find_update_by_ID [OF assms]
  by (simp add: db_first_order_def db_update_order_def)

lemma history_db_update_order: "history (db_update_order i f st) = history st"
  by (simp add: db_update_order_def)

lemma db_first_order_create_history:
  "db_first_order (db_create_history h st) j = db_first_order st j"
  by (simp add: db_first_order_def db_create_history_def)

lemma history_db_create_history: "history (db_create_history h st) = history st @ [h]"
  by (simp add: db_create_history_def)

lemma most_recent_appended:
  "history st' = hs @ [h] \<Longrightarrow> most_recent st' (OrderID h) = Some h"
  by (simp add: most_recent_def)






lemma db_first_order_written:
  assumes "db_first_order st i = Some row" and "\<And>x. ID (f x) = ID x"
  shows "db_first_order (db_create_history h (db_update_order i f st)) i = Some (f row)"
  using assms(1) by (simp add: db_first_order_create_history db_first_order_update [OF assms(2)])

section \<open>Success paths of the handlers\<close>

lemma PickupOrder_claim_success:
  assumes "PickupOrder_claim c order st = (resp, st')" "status_code resp = StatusOK"
  shows "DriverID order = None \<and> CanTransition (Status order) StatusPickedUp ''driver'' = None
         \<and> st' = db_create_history
                    \<lparr>OrderID = ID order, FromStatus = Status order, ToStatus = StatusPickedUp,
                     ChangedBy = userID c, Note = ''Driver picked up the order''\<rparr>
                    (db_update_order (ID order)
                       (\<lambda>r. r\<lparr>Status := StatusPickedUp, DriverID := Some (userID c)\<rparr>) st)"
  using assms
  by (auto simp add: PickupOrder_claim_def respond_def http_defs Let_def
      split: option.splits if_splits)

lemma PickupOrder_success:
  assumes "PickupOrder c st = (resp, st')" "status_code resp = StatusOK"
  shows "\<exists>order. db_first_order st (param_id c) = Some order
         \<and> DriverID order = None
         \<and> CanTransition (Status order) StatusPickedUp ''driver'' = None
         \<and> st' = db_create_history
                    \<lparr>OrderID = ID order, FromStatus = Status order, ToStatus = StatusPickedUp,
                     ChangedBy = userID c, Note = ''Driver picked up the order''\<rparr>
                    (db_update_order (ID order)
                       (\<lambda>r. r\<lparr>Status := StatusPickedUp, DriverID := Some (userID c)\<rparr>) st)"
proof (cases "db_first_order st (param_id c)")
  case None
  with assms show ?thesis
    by (auto simp add: PickupOrder_def respond_def http_defs)
next
  case (Some order)
  with assms have "PickupOrder_claim c order st = (resp, st')"
    by (simp add: PickupOrder_def)
  from PickupOrder_claim_success [OF this assms(2)] Some show ?thesis by blast
qed

lemma DeliverOrder_success:
  assumes "DeliverOrder c st = (resp, st')" "status_code resp = StatusOK"
  shows "\<exists>order. db_first_order st (param_id c) = Some order
         \<and> DriverID order = Some (userID c)
         \<and> CanTransition (Status order) StatusDelivered ''driver'' = None
         \<and> st' = db_create_history
                    \<lparr>OrderID = ID order, FromStatus = Status order, ToStatus = StatusDelivered,
                     ChangedBy = userID c, Note = ''Order delivered to customer''\<rparr>
                    (db_update_order (ID order) (\<lambda>r. r\<lparr>Status := StatusDelivered\<rparr>) st)"
  using assms
  by (auto simp add: DeliverOrder_def respond_def http_defs Let_def
      split: option.splits if_splits)

lemma CancelOrder_success:
  assumes "CancelOrder c st = (resp, st')" "status_code resp = StatusOK"
  shows "\<exists>order. db_first_order st (param_id c) = Some order
         \<and> CustomerID order = userID c
         \<and> CanTransition (Status order) StatusCancelled ''customer'' = None
         \<and> st' = db_create_history
                    \<lparr>OrderID = ID order, FromStatus = Status order, ToStatus = StatusCancelled,
                     ChangedBy = userID c, Note = ''Order cancelled by customer''\<rparr>
                    (db_update_order (ID order) (\<lambda>r. r\<lparr>Status := StatusCancelled\<rparr>) st)"
  using assms
  by (auto simp add: CancelOrder_def respond_def http_defs Let_def
      split: option.splits if_splits)

lemma UpdateOrderStatus_success:
  assumes "UpdateOrderStatus c body st = (resp, st')" "status_code resp = StatusOK"
  shows "\<exists>order req. db_first_order st (param_id c) = Some order \<and> body = Inr req
         \<and> CanTransition (Status order) (req_Status req) ''restaurant'' = None
         \<and> st' = db_create_history
                    \<lparr>OrderID = ID order, FromStatus = Status order, ToStatus = req_Status req,
                     ChangedBy = userID c, Note = req_Note req\<rparr>
                    (if req_Status req = StatusPreparing
                     then db_update_order (ID order) (\<lambda>r. r\<lparr>EstimatedTime := 20\<rparr>)
                            (db_update_order (ID order) (\<lambda>r. r\<lparr>Status := req_Status req\<rparr>) st)
                     else db_update_order (ID order) (\<lambda>r. r\<lparr>Status := req_Status req\<rparr>) st)"
  using assms
  by (auto simp add: UpdateOrderStatus_def respond_def http_defs Let_def
      split: option.splits if_splits sum.splits)

lemma AdminForceOrderStatus_found:
  assumes "db_first_order st (param_id c) = Some order"
  shows "AdminForceOrderStatus c (Inr req) st =
           (respond StatusOK
              [(''message'', JString ''Order status force-updated by admin''),
               (''order_id'', JUint (ID order)),
               (''previous_status'', JString (Status order)),
               (''new_status'', JString (force_Status req))],
            db_create_history
              \<lparr>OrderID = ID order, FromStatus = Status order, ToStatus = force_Status req,
               ChangedBy = 0, Note = ''[ADMIN OVERRIDE] '' @ Reason req\<rparr>
              (db_update_order (ID order) (\<lambda>r. r\<lparr>Status := force_Status req\<rparr>) st))"
  using assms by (simp add: AdminForceOrderStatus_def Let_def)

lemma AdminForceOrderStatus_success:
  assumes "AdminForceOrderStatus c body st = (resp, st')" "status_code resp = StatusOK"
  shows "\<exists>order req. db_first_order st (param_id c) = Some order \<and> body = Inr req
         \<and> st' = db_create_history
              \<lparr>OrderID = ID order, FromStatus = Status order, ToStatus = force_Status req,
               ChangedBy = 0, Note = ''[ADMIN OVERRIDE] '' @ Reason req\<rparr>
              (db_update_order (ID order) (\<lambda>r. r\<lparr>Status := force_Status req\<rparr>) st)"
  using assms
  by (auto simp add: AdminForceOrderStatus_def respond_def http_defs Let_def
      split: option.splits sum.splits)

lemma buildOrderItems_Inl:
  "buildOrderItems st rid items acc = Inl r \<Longrightarrow> status_code r = StatusBadRequest"
  by (induction st rid items acc rule: buildOrderItems.induct)
     (auto simp add: respond_def split: option.splits if_splits)

lemma PlaceOrder_success:
  assumes "PlaceOrder c body created st = (resp, st')" "status_code resp = StatusCreated"
  shows "\<exists>req orderItems. body = Inr req
         \<and> st' = db_create_history
                    \<lparr>OrderID = next_order_id st, FromStatus = [], ToStatus = StatusPlaced,
                     ChangedBy = userID c, Note = ''Order placed by customer''\<rparr>
                    (snd (db_create_order
                       \<lparr>ID = 0, CustomerID = userID c, RestaurantID = req_RestaurantID req,
                        DriverID = None, Status = StatusPlaced,
                        DeliveryAddress = req_DeliveryAddress req, Notes = req_Notes req,
                        EstimatedTime = 30 + 5 * int (length (req_Items req)),
                        Items = orderItems\<rparr> st))"
proof (cases body)
  case (Inl err)
  with assms show ?thesis
    by (auto simp add: PlaceOrder_def respond_def http_defs)
next
  case (Inr req)
  show ?thesis
  proof (cases "db_first_restaurant st (req_RestaurantID req)")
    case None
    with Inr assms show ?thesis
      by (auto simp add: PlaceOrder_def respond_def http_defs)
  next
    case (Some restaurant)
    show ?thesis
    proof (cases "buildOrderItems st (req_RestaurantID req) (req_Items req) []")
      case (Inl r)
      from buildOrderItems_Inl [OF Inl] Inr Some Inl assms show ?thesis
        by (auto simp add: PlaceOrder_def respond_def http_defs Let_def split: if_splits)
    next
      case items: (Inr orderItems)
      from Inr Some items assms
      have "st' = db_create_history
                    \<lparr>OrderID = next_order_id st, FromStatus = [], ToStatus = StatusPlaced,
                     ChangedBy = userID c, Note = ''Order placed by customer''\<rparr>
                    (snd (db_create_order
                       \<lparr>ID = 0, CustomerID = userID c, RestaurantID = req_RestaurantID req,
                        DriverID = None, Status = StatusPlaced,
                        DeliveryAddress = req_DeliveryAddress req, Notes = req_Notes req,
                        EstimatedTime = 30 + 5 * int (length (req_Items req)),
                        Items = orderItems\<rparr> st))"
        by (auto simp add: PlaceOrder_def respond_def http_defs Let_def db_create_order_def
            split: if_splits)
      with Inr show ?thesis by blast
    qed
  qed
qed

section \<open>One audit record per successful transition\<close>










section \<open>The sample run, evaluated\<close>

lemma sample_found:
  "db_first_order st_placed 1 = Some (sample_order StatusPlaced None 35)"
  "db_first_order st_ready 1 = Some (sample_order StatusReadyForPickup None 20)"
  "db_first_order st_picked 1 = Some (sample_order StatusPickedUp (Some 30) 20)"
  "db_first_order st_delivered 1 = Some (sample_order StatusDelivered (Some 30) 20)"
  by (simp_all add: st_placed_eq st_ready_eq st_picked_eq st_delivered_eq db_first_order_def
      sample_order_def)




section \<open>Guards of the driver handlers\<close>

lemma PickupOrder_assigned:
  assumes "db_first_order st (param_id c) = Some order" "DriverID order \<noteq> None"
  shows "PickupOrder c st =
           (respond StatusConflict
              [(''error'', JString ''Order has already been picked up by another driver'')], st)"
  using assms by (simp add: PickupOrder_def PickupOrder_claim_def)

text \<open>
  Claim C5. A pickup request for an order that is assigned to a different driver is
  answered with 409 Conflict, which is not the 422 of an invalid transition, and the
  database, hence the order's status and assignment, is unchanged.
\<close>

theorem pickup_conflict_when_assigned_to_another:
  assumes "db_first_order st (param_id c) = Some order"
    and "DriverID order = Some d" and "d \<noteq> userID c"
  shows "status_code (fst (PickupOrder c st)) = StatusConflict
         \<and> StatusConflict \<noteq> StatusUnprocessableEntity
         \<and> snd (PickupOrder c st) = st
         \<and> db_first_order (snd (PickupOrder c st)) (param_id c) = Some order"
  using assms by (simp add: PickupOrder_assigned respond_def http_defs)

theorem pickup_conflict_when_assigned_to_another_witness:
  "db_first_order st_picked (param_id driver31) = Some (sample_order StatusPickedUp (Some 30) 20)
   \<and> DriverID (sample_order StatusPickedUp (Some 30) 20) = Some 30
   \<and> 30 \<noteq> userID driver31
   \<and> status_code (fst (PickupOrder driver31 st_picked)) = StatusConflict
   \<and> snd (PickupOrder driver31 st_picked) = st_picked"
proof -
  have a: "db_first_order st_picked (param_id driver31)
             = Some (sample_order StatusPickedUp (Some 30) 20)"
    using sample_found(3) by (simp add: driver31_def)
  have b: "DriverID (sample_order StatusPickedUp (Some 30) 20) = Some 30"
    by (simp add: sample_order_def)
  have c: "30 \<noteq> userID driver31" by (simp add: driver31_def)
  from pickup_conflict_when_assigned_to_another [OF a b c] a b c show ?thesis by simp
qed

text \<open>
  Claim C10. The pickup handler looks at the assignment before it asks the validator:
  for an existing order with a driver set the answer is 409 Conflict and nothing is
  written, whatever the order's status and whoever asks, the assigned driver included.
\<close>

theorem pickup_checks_assignment_first:
  assumes "db_first_order st (param_id c) = Some order" and "DriverID order \<noteq> None"
  shows "status_code (fst (PickupOrder c st)) = StatusConflict
         \<and> snd (PickupOrder c st) = st"
  using assms by (simp add: PickupOrder_assigned respond_def)

theorem pickup_checks_assignment_first_witness:
  "db_first_order st_delivered (param_id driver30)
     = Some (sample_order StatusDelivered (Some 30) 20)
   \<and> DriverID (sample_order StatusDelivered (Some 30) 20) = Some (userID driver30)
   \<and> CanTransition (Status (sample_order StatusDelivered (Some 30) 20)) StatusPickedUp ''driver''
       \<noteq> None
   \<and> status_code (fst (PickupOrder driver30 st_delivered)) = StatusConflict
   \<and> snd (PickupOrder driver30 st_delivered) = st_delivered"
proof -
  have a: "db_first_order st_delivered (param_id driver30)
             = Some (sample_order StatusDelivered (Some 30) 20)"
    using sample_found(4) by (simp add: driver30_def)
  have b: "DriverID (sample_order StatusDelivered (Some 30) 20) = Some (userID driver30)"
    by (simp add: sample_order_def driver30_def)
  then have b': "DriverID (sample_order StatusDelivered (Some 30) 20) \<noteq> None" by simp
  have c: "CanTransition (Status (sample_order StatusDelivered (Some 30) 20)) StatusPickedUp
             ''driver'' \<noteq> None"
    by (simp add: CanTransition_def transitionMap_iff validTransitions_def sample_order_def
        status_defs)
  from pickup_checks_assignment_first [OF a b'] a b c show ?thesis by simp
qed

text \<open>
  Claim C6. A delivery request by a driver other than the assigned one is answered with
  403 Forbidden, neither 422 nor 409, and the database is unchanged.
\<close>

theorem deliver_forbidden_for_other_driver:
  assumes "db_first_order st (param_id c) = Some order"
    and "DriverID order = Some d" and "d \<noteq> userID c"
  shows "status_code (fst (DeliverOrder c st)) = StatusForbidden
         \<and> StatusForbidden \<noteq> StatusUnprocessableEntity
         \<and> StatusForbidden \<noteq> StatusConflict
         \<and> snd (DeliverOrder c st) = st"
  using assms by (simp add: DeliverOrder_def respond_def http_defs)

theorem deliver_forbidden_for_other_driver_witness:
  "db_first_order st_picked (param_id driver31) = Some (sample_order StatusPickedUp (Some 30) 20)
   \<and> DriverID (sample_order StatusPickedUp (Some 30) 20) = Some 30
   \<and> 30 \<noteq> userID driver31
   \<and> CanTransition (Status (sample_order StatusPickedUp (Some 30) 20)) StatusDelivered ''driver''
       = None
   \<and> status_code (fst (DeliverOrder driver31 st_picked)) = StatusForbidden
   \<and> snd (DeliverOrder driver31 st_picked) = st_picked"
proof -
  have a: "db_first_order st_picked (param_id driver31)
             = Some (sample_order StatusPickedUp (Some 30) 20)"
    using sample_found(3) by (simp add: driver31_def)
  have b: "DriverID (sample_order StatusPickedUp (Some 30) 20) = Some 30"
    by (simp add: sample_order_def)
  have c: "30 \<noteq> userID driver31" by (simp add: driver31_def)
  have d: "CanTransition (Status (sample_order StatusPickedUp (Some 30) 20)) StatusDelivered
             ''driver'' = None"
    by (simp add: sample_order_def CanTransition_table)
  from deliver_forbidden_for_other_driver [OF a b c] a b c d show ?thesis by simp
qed

section \<open>The admin override\<close>






section \<open>What the override writes as the actor\<close>

lemma AdminForceOrderStatus_ChangedBy:
  assumes "AdminForceOrderStatus c body st = (resp, st')" "status_code resp = StatusOK"
  shows "map_option ChangedBy (most_recent st' (param_id c)) = Some 0"
proof -
  from AdminForceOrderStatus_success [OF assms]
  obtain order and req :: ForceOrderStatusRequest where
    found: "db_first_order st (param_id c) = Some order" and
    st': "st' = db_create_history
              \<lparr>OrderID = ID order, FromStatus = Status order, ToStatus = force_Status req,
               ChangedBy = 0, Note = ''[ADMIN OVERRIDE] '' @ Reason req\<rparr>
              (db_update_order (ID order) (\<lambda>r. r\<lparr>Status := force_Status req\<rparr>) st)"
      (is "_ = db_create_history ?h ?st1")
    by blast
  have "history st' = history ?st1 @ [?h]"
    unfolding st' by (rule history_db_create_history)
  from most_recent_appended [OF this] db_first_order_ID [OF found]
  show ?thesis by simp
qed

lemma workflow_handlers_ChangedBy:
  "PlaceOrder c pbody created st = (resp, st') \<Longrightarrow> status_code resp = StatusCreated \<Longrightarrow>
     map_option ChangedBy (most_recent st' (next_order_id st)) = Some (userID c)"
  "UpdateOrderStatus c ubody st = (resp, st') \<Longrightarrow> status_code resp = StatusOK \<Longrightarrow>
     map_option ChangedBy (most_recent st' (param_id c)) = Some (userID c)"
  "CancelOrder c st = (resp, st') \<Longrightarrow> status_code resp = StatusOK \<Longrightarrow>
     map_option ChangedBy (most_recent st' (param_id c)) = Some (userID c)"
  "PickupOrder c st = (resp, st') \<Longrightarrow> status_code resp = StatusOK \<Longrightarrow>
     map_option ChangedBy (most_recent st' (param_id c)) = Some (userID c)"
  "DeliverOrder c st = (resp, st') \<Longrightarrow> status_code resp = StatusOK \<Longrightarrow>
     map_option ChangedBy (most_recent st' (param_id c)) = Some (userID c)"
proof -
  have last_row: "\<And>h st1 oid. OrderID h = oid \<Longrightarrow>
      most_recent (db_create_history h st1) oid = Some h"
    using most_recent_appended [OF history_db_create_history] by fastforce
  show "PlaceOrder c pbody created st = (resp, st') \<Longrightarrow> status_code resp = StatusCreated \<Longrightarrow>
     map_option ChangedBy (most_recent st' (next_order_id st)) = Some (userID c)"
    by (drule (1) PlaceOrder_success) (auto simp add: last_row)
  show "UpdateOrderStatus c ubody st = (resp, st') \<Longrightarrow> status_code resp = StatusOK \<Longrightarrow>
     map_option ChangedBy (most_recent st' (param_id c)) = Some (userID c)"
    by (drule (1) UpdateOrderStatus_success)
       (auto simp add: last_row dest: db_first_order_ID)
  show "CancelOrder c st = (resp, st') \<Longrightarrow> status_code resp = StatusOK \<Longrightarrow>
     map_option ChangedBy (most_recent st' (param_id c)) = Some (userID c)"
    by (drule (1) CancelOrder_success)
       (auto simp add: last_row dest: db_first_order_ID)
  show "PickupOrder c st = (resp, st') \<Longrightarrow> status_code resp = StatusOK \<Longrightarrow>
     map_option ChangedBy (most_recent st' (param_id c)) = Some (userID c)"
    by (drule (1) PickupOrder_success)
       (auto simp add: last_row dest: db_first_order_ID)
  show "DeliverOrder c st = (resp, st') \<Longrightarrow> status_code resp = StatusOK \<Longrightarrow>
     map_option ChangedBy (most_recent st' (param_id c)) = Some (userID c)"
    by (drule (1) DeliverOrder_success)
       (auto simp add: last_row dest: db_first_order_ID)
qed

text \<open>
  Claim C9 at the admin override: admin 99 forces the ready order to \<open>CANCELLED\<close>, and
  the history row written for it has \<open>ChangedBy = 0\<close>, Go's zero value, not 99. The five
  workflow handlers record the caller (\<open>workflow_handlers_ChangedBy\<close>).
\<close>

theorem admin_override_record_names_no_actor:
  "userID admin99 = 99
   \<and> status_code (fst (AdminForceOrderStatus admin99
         (Inr \<lparr>force_Status = StatusCancelled, Reason = ''restaurant closed''\<rparr>) st_ready))
       = StatusOK
   \<and> map_option (\<lambda>h. (FromStatus h, ToStatus h, ChangedBy h, Note h))
        (most_recent (snd (AdminForceOrderStatus admin99
           (Inr \<lparr>force_Status = StatusCancelled, Reason = ''restaurant closed''\<rparr>)
           st_ready)) 1)
       = Some (StatusReadyForPickup, StatusCancelled, 0, ''[ADMIN OVERRIDE] restaurant closed'')"
proof -
  have f: "db_first_order st_ready (param_id admin99)
             = Some (sample_order StatusReadyForPickup None 20)"
    using sample_found(2) by (simp add: admin99_def)
  show ?thesis
    unfolding AdminForceOrderStatus_found [OF f]
    by (simp add: admin99_def respond_def most_recent_def history_db_create_history
        sample_order_def)
qed

section \<open>What an invalid-transition denial carries\<close>











section \<open>Two pickup requests at once\<close>

lemma PickupOrder_claim_unassigned:
  assumes "DriverID order = None"
    and "CanTransition (Status order) StatusPickedUp ''driver'' = None"
  shows "PickupOrder_claim c order st =
           (respond StatusOK
              [(''message'', JString ''Order picked up successfully''),
               (''order_id'', JUint (ID order)),
               (''status'', JString StatusPickedUp)],
            db_create_history
              \<lparr>OrderID = ID order, FromStatus = Status order, ToStatus = StatusPickedUp,
               ChangedBy = userID c, Note = ''Driver picked up the order''\<rparr>
              (db_update_order (ID order)
                 (\<lambda>r. r\<lparr>Status := StatusPickedUp, DriverID := Some (userID c)\<rparr>) st))"
  using assms by (simp add: PickupOrder_claim_def Let_def)

text \<open>
  One after the other, the two requests behave as the single-claim rule asks: the first
  succeeds, the second gets 409, one record is written and the first driver keeps the
  order.
\<close>

lemma PickupOrder_sequential_single_claim:
  assumes found: "db_first_order st oid = Some order"
    and ready: "Status order = StatusReadyForPickup" and free: "DriverID order = None"
    and same: "param_id cA = oid" "param_id cB = oid"
  shows "status_code (fst (PickupOrder_sequential cA cB st)) = StatusOK
         \<and> status_code (fst (snd (PickupOrder_sequential cA cB st))) = StatusConflict
         \<and> history (snd (snd (PickupOrder_sequential cA cB st)))
             = history st @ [\<lparr>OrderID = oid, FromStatus = StatusReadyForPickup,
                               ToStatus = StatusPickedUp, ChangedBy = userID cA,
                               Note = ''Driver picked up the order''\<rparr>]
         \<and> map_option DriverID (db_first_order (snd (snd (PickupOrder_sequential cA cB st))) oid)
             = Some (Some (userID cA))"
proof -
  let ?h = "\<lparr>OrderID = ID order, FromStatus = Status order, ToStatus = StatusPickedUp,
             ChangedBy = userID cA, Note = ''Driver picked up the order''\<rparr>"
  let ?f = "\<lambda>r::Order. r\<lparr>Status := StatusPickedUp, DriverID := Some (userID cA)\<rparr>"
  let ?st1 = "db_create_history ?h (db_update_order (ID order) ?f st)"
  have id: "ID order = oid" by (rule db_first_order_ID [OF found])
  have can: "CanTransition (Status order) StatusPickedUp ''driver'' = None"
    using ready by (simp add: CanTransition_table)
  have first: "PickupOrder cA st =
      (respond StatusOK
              [(''message'', JString ''Order picked up successfully''),
               (''order_id'', JUint (ID order)),
               (''status'', JString StatusPickedUp)], ?st1)"
    using found same(1) PickupOrder_claim_unassigned [OF free can]
    by (simp add: PickupOrder_def)
  have row: "db_first_order ?st1 oid = Some (?f order)"
    using found id by (simp add: db_first_order_create_history db_first_order_update)
  have second: "PickupOrder cB ?st1 =
      (respond StatusConflict
              [(''error'', JString ''Order has already been picked up by another driver'')],
       ?st1)"
    by (rule PickupOrder_assigned [where order = "?f order"]) (simp_all add: same(2) row)
  have run: "PickupOrder_sequential cA cB st =
      (respond StatusOK
              [(''message'', JString ''Order picked up successfully''),
               (''order_id'', JUint (ID order)),
               (''status'', JString StatusPickedUp)],
       respond StatusConflict
              [(''error'', JString ''Order has already been picked up by another driver'')],
       ?st1)"
    unfolding PickupOrder_sequential_def first by (simp only: Let_def prod.case second)
  have hist: "history ?st1 = history st @ [?h]"
    by (simp add: history_db_create_history history_db_update_order)
  show ?thesis
    unfolding run using row hist id ready by (simp add: respond_def)
qed

text \<open>
  Claim C2 under the schedule in which both handlers read before either writes: drivers
  30 and 31 both get 200 for the same unassigned ready order, two history rows are
  written for the one transition, and the order ends assigned to driver 31.
\<close>

theorem pickup_interleaved_both_succeed:
  "status_code (fst (PickupOrder_interleaved driver30 driver31 st_ready)) = StatusOK
   \<and> status_code (fst (snd (PickupOrder_interleaved driver30 driver31 st_ready))) = StatusOK
   \<and> history (snd (snd (PickupOrder_interleaved driver30 driver31 st_ready)))
       = history st_ready @
           [\<lparr>OrderID = 1, FromStatus = StatusReadyForPickup, ToStatus = StatusPickedUp,
             ChangedBy = 30, Note = ''Driver picked up the order''\<rparr>,
            \<lparr>OrderID = 1, FromStatus = StatusReadyForPickup, ToStatus = StatusPickedUp,
             ChangedBy = 31, Note = ''Driver picked up the order''\<rparr>]
   \<and> map_option DriverID
        (db_first_order (snd (snd (PickupOrder_interleaved driver30 driver31 st_ready))) 1)
       = Some (Some 31)"
proof -
  let ?order = "sample_order StatusReadyForPickup None 20"
  have free: "DriverID ?order = None" by (simp add: sample_order_def)
  have can: "CanTransition (Status ?order) StatusPickedUp ''driver'' = None"
    by (simp add: sample_order_def CanTransition_table)
  have p: "param_id driver30 = 1" "param_id driver31 = 1" "userID driver30 = 30"
    "userID driver31 = 31"
    by (simp_all add: sample_defs)
  have id: "ID ?order = 1" "Status ?order = StatusReadyForPickup"
    by (simp_all add: sample_order_def)
  let ?hA = "\<lparr>OrderID = ID ?order, FromStatus = Status ?order, ToStatus = StatusPickedUp,
              ChangedBy = userID driver30, Note = ''Driver picked up the order''\<rparr>"
  let ?hB = "\<lparr>OrderID = ID ?order, FromStatus = Status ?order, ToStatus = StatusPickedUp,
              ChangedBy = userID driver31, Note = ''Driver picked up the order''\<rparr>"
  let ?fA = "\<lambda>r::Order. r\<lparr>Status := StatusPickedUp, DriverID := Some (userID driver30)\<rparr>"
  let ?fB = "\<lambda>r::Order. r\<lparr>Status := StatusPickedUp, DriverID := Some (userID driver31)\<rparr>"
  let ?st1 = "db_create_history ?hA (db_update_order (ID ?order) ?fA st_ready)"
  let ?st2 = "db_create_history ?hB (db_update_order (ID ?order) ?fB ?st1)"
  let ?ok = "respond StatusOK
              [(''message'', JString ''Order picked up successfully''),
               (''order_id'', JUint (ID ?order)),
               (''status'', JString StatusPickedUp)]"
  have read: "db_first_order st_ready (param_id driver30) = Some ?order"
    "db_first_order st_ready (param_id driver31) = Some ?order"
    using sample_found(2) p by simp_all
  have run: "PickupOrder_interleaved driver30 driver31 st_ready = (?ok, ?ok, ?st2)"
    unfolding PickupOrder_interleaved_def read
    by (simp only: Let_def option.case prod.case PickupOrder_claim_unassigned [OF free can])
  have hist: "history ?st2 = history st_ready @ [?hA, ?hB]"
    by (simp add: history_db_create_history history_db_update_order)
  have r0: "db_first_order st_ready (ID ?order) = Some ?order"
    unfolding id by (rule sample_found(2))
  have r1: "db_first_order ?st1 (ID ?order) = Some (?fA ?order)"
    by (rule db_first_order_written [OF r0]) simp
  have row: "db_first_order ?st2 (ID ?order) = Some (?fB (?fA ?order))"
    by (rule db_first_order_written [OF r1]) simp
  show ?thesis
    unfolding run using hist row by (simp add: respond_def p id)
qed

section \<open>An order in a terminal status stays where it is\<close>

text \<open>
  None of the four workflow handlers moves an order out of a status without outgoing
  entries: the answer is never a success and the database is unchanged. Which error is
  reported depends on the guard that fires first: the ownership and assignment checks
  come before the validator.
\<close>

lemma terminal_order_is_not_moved:
  assumes "db_first_order st (param_id c) = Some order"
    and "ValidTransitionsFrom (Status order) = []"
  shows "status_code (fst (UpdateOrderStatus c ubody st)) \<noteq> StatusOK
         \<and> snd (UpdateOrderStatus c ubody st) = st"
    and "status_code (fst (CancelOrder c st)) \<noteq> StatusOK \<and> snd (CancelOrder c st) = st"
    and "status_code (fst (PickupOrder c st)) \<noteq> StatusOK \<and> snd (PickupOrder c st) = st"
    and "status_code (fst (DeliverOrder c st)) \<noteq> StatusOK \<and> snd (DeliverOrder c st) = st"
proof -
  note denied = CanTransition_terminal [OF assms(2)]
  show "status_code (fst (UpdateOrderStatus c ubody st)) \<noteq> StatusOK
         \<and> snd (UpdateOrderStatus c ubody st) = st"
    using assms(1) denied
    by (simp add: UpdateOrderStatus_def respond_def http_defs Let_def
        split: option.splits sum.splits)
  show "status_code (fst (CancelOrder c st)) \<noteq> StatusOK \<and> snd (CancelOrder c st) = st"
    using assms(1) denied by (simp add: CancelOrder_def respond_def http_defs Let_def)
  show "status_code (fst (PickupOrder c st)) \<noteq> StatusOK \<and> snd (PickupOrder c st) = st"
    using assms(1) denied
    by (simp add: PickupOrder_def PickupOrder_claim_def respond_def http_defs Let_def)
  show "status_code (fst (DeliverOrder c st)) \<noteq> StatusOK \<and> snd (DeliverOrder c st) = st"
    using assms(1) denied by (simp add: DeliverOrder_def respond_def http_defs Let_def)
qed

end
